theory Spec2Isabelle
  imports Complex_Main "HOL-Library.Sublist"
begin

section \<open>Strings and dynamically typed values\<close>

text \<open>
  Text is a \<open>string\<close>: the list of the bytes of its UTF-8 encoding, so a character
  outside ASCII is a lead byte followed by continuation bytes (the degree sign is two
  bytes). The program compares case-mapped text with ASCII words only (the keys of the
  weather table, the blocked city, the blocked keyword), so the case mappings are
  modelled exactly where their result can hold an ASCII character:
  \<^item> \<open>str.lower\<close> maps the 26 ASCII capitals to their small letters, the Kelvin sign
    U+212A (bytes \<open>E2 84 AA\<close>) to \<open>k\<close>, and the dotted capital I U+0130 (bytes
    \<open>C4 B0\<close>) to \<open>i\<close> followed by the combining dot U+0307 (bytes \<open>CC 87\<close>).
    No other character has an ASCII character in its lower-case form.
  \<^item> \<open>str.upper\<close> maps the 26 ASCII small letters to their capitals. The other
    characters whose upper-case form holds an ASCII letter give none of \<open>B\<close>, \<open>O\<close>,
    \<open>C\<close>, \<open>K\<close>, and an \<open>L\<close> only straight after an \<open>F\<close> (the ligatures fl and
    ffl), which never makes the keyword.
  Every other character outside ASCII is left as it is; its case-mapped form in Python
  is again outside ASCII, so which texts are mapped to a given ASCII word is the same
  in the model and in Python.
\<close>

definition lower_char :: "char \<Rightarrow> char" where
  "lower_char c =
     (let n = (of_char c :: nat) in if 65 \<le> n \<and> n \<le> 90 then char_of (n + 32) else c)"

definition upper_char :: "char \<Rightarrow> char" where
  "upper_char c =
     (let n = (of_char c :: nat) in if 97 \<le> n \<and> n \<le> 122 then char_of (n - 32) else c)"

fun lower :: "string \<Rightarrow> string" where
  "lower (a # b # c # cs) =
     (if a = CHR 0xE2 \<and> b = CHR 0x84 \<and> c = CHR 0xAA then CHR ''k'' # lower cs
      else if a = CHR 0xC4 \<and> b = CHR 0xB0
        then CHR ''i'' # CHR 0xCC # CHR 0x87 # lower (c # cs)
      else lower_char a # lower (b # c # cs))"
| "lower [a, b] =
     (if a = CHR 0xC4 \<and> b = CHR 0xB0 then [CHR ''i'', CHR 0xCC, CHR 0x87]
      else [lower_char a, lower_char b])"
| "lower [a] = [lower_char a]"
| "lower [] = []"

definition upper :: "string \<Rightarrow> string" where
  "upper s = map upper_char s"

text \<open>
  \<open>s.capitalize()\<close>: the first character upper-cased, the rest lower-cased. (The
  Kelvin sign and the dotted capital I are their own title-case forms: as a first
  character their bytes stay as they are.)
\<close>

fun capitalize :: "string \<Rightarrow> string" where
  "capitalize [] = []"
| "capitalize (c # cs) = upper_char c # lower cs"

text \<open>\<open>s.replace(" ", "")\<close>: every space character removed.\<close>

definition remove_spaces :: "string \<Rightarrow> string" where
  "remove_spaces s = filter (\<lambda>c. c \<noteq> CHR '' '') s"

definition apostrophe :: string where
  "apostrophe = [CHR 0x27]"

definition degree_sign :: string where
  "degree_sign = [CHR 0xC2, CHR 0xB0]"

definition kelvin_sign :: string where
  "kelvin_sign = [CHR 0xE2, CHR 0x84, CHR 0xAA]"

text \<open>The decimal digits of a natural number, as \<open>str(n)\<close> prints them.\<close>

fun decimal :: "nat \<Rightarrow> string" where
  "decimal n =
     (if n < 10 then [char_of (48 + n)]
      else decimal (n div 10) @ [char_of (48 + n mod 10)])"

declare decimal.simps [simp del]

text \<open>
  The format specification \<open>:.0f\<close>: the number rounded to an integer, ties to the even
  neighbour, with a minus sign for a negative number (also when it rounds to zero).
  Python evaluates \<open>temp_c * 9/5 + 32\<close> in binary floating point; the model evaluates it
  over the rationals. For an integer \<open>temp_c\<close> the exact value is a multiple of \<open>1/5\<close>,
  so it is never near a rounding tie and both give the same digits.
\<close>

definition round_half_even :: "rat \<Rightarrow> int" where
  "round_half_even x =
     (let f = \<lfloor>x\<rfloor>; d = x - of_int f
      in if d < 1 / 2 then f else if 1 / 2 < d then f + 1
         else if even f then f else f + 1)"

definition format_0f :: "rat \<Rightarrow> string" where
  "format_0f x = (if x < 0 then ''-'' else []) @ decimal (nat (round_half_even \<bar>x\<bar>))"

text \<open>
  A value of Python's type \<open>Any\<close>, as far as the program meets one: the values of the
  session state and of a tool's argument dictionary.
\<close>

datatype pyval = PNone | PBool bool | PInt int | PStr string

fun truthy :: "pyval \<Rightarrow> bool" where
  "truthy PNone = False"
| "truthy (PBool b) = b"
| "truthy (PInt i) = (i \<noteq> 0)"
| "truthy (PStr s) = (s \<noteq> [])"

text \<open>The exceptions that an operation of the program can raise.\<close>

datatype py_error = AttributeError | KeyError

text \<open>The session state: a dictionary from string keys to values.\<close>

type_synonym state = "string \<rightharpoonup> pyval"

text \<open>
  A tool's result dictionary, as the list of its items in insertion order; all its values
  are strings.
\<close>

type_synonym tool_result = "(string \<times> string) list"

section \<open>The weather tool\<close>

text \<open>\<open>city.lower().replace(" ", "")\<close>, the key the tool looks up.\<close>

definition city_normalized :: "string \<Rightarrow> string" where
  "city_normalized city = remove_spaces (lower city)"

subsection \<open>The stateless variant (\<open>agent_session.py\<close>, \<open>agentteam_session.py\<close>)\<close>

definition mock_weather_db_basic :: "string \<rightharpoonup> tool_result" where
  "mock_weather_db_basic =
     [''newyork'' \<mapsto> [(''status'', ''success''),
         (''report'', ''The weather in New York is sunny with a temperature of 25''
            @ degree_sign @ ''C.'')],
      ''london'' \<mapsto> [(''status'', ''success''),
         (''report'', ''It's cloudy in London with a temperature of 15''
            @ degree_sign @ ''C.'')],
      ''tokyo'' \<mapsto> [(''status'', ''success''),
         (''report'', ''Tokyo is experiencing light rain and a temperature of 18''
            @ degree_sign @ ''C.'')]]"

text \<open>
  The tool tests \<open>city_normalized in mock_weather_db\<close> and then subscripts the table.
  A subscript with a key that the dictionary does not have raises \<open>KeyError\<close>, so the
  tool returns an exception or its result dictionary. Its log lines (\<open>print\<close> of
  f-strings over the city, a state value and the result) go to standard output and are
  not part of the model; they enter neither the result nor the state.
\<close>

definition get_weather_basic :: "string \<Rightarrow> py_error + tool_result" where
  "get_weather_basic city =
     (if mock_weather_db_basic (city_normalized city) \<noteq> None then
        (case mock_weather_db_basic (city_normalized city) of
           Some r \<Rightarrow> Inr r
         | None \<Rightarrow> Inl KeyError)
      else
        Inr [(''status'', ''error''),
             (''error_message'',
              ''Sorry, I don't have weather information for '' @ apostrophe @ city
                @ apostrophe @ ''.'')])"

subsection \<open>The stateful variant (\<open>agentteam_statefulsession.py\<close>)\<close>

record weather_data =
  temp_c :: int
  condition :: string

definition mock_weather_db :: "string \<rightharpoonup> weather_data" where
  "mock_weather_db =
     [''newyork'' \<mapsto> \<lparr>temp_c = 25, condition = ''sunny''\<rparr>,
      ''london'' \<mapsto> \<lparr>temp_c = 15, condition = ''cloudy''\<rparr>,
      ''tokyo'' \<mapsto> \<lparr>temp_c = 18, condition = ''light rain''\<rparr>]"

text \<open>
  The tool reads the unit preference from the state (default \<open>"Celsius"\<close>), and on
  success writes the city it was asked for back to the state. It returns an exception,
  or its result dictionary and the state it leaves. Each entry of the table is a
  dictionary literal with the keys \<open>temp_c\<close> (an integer) and \<open>condition\<close> (a string),
  here a record.
\<close>

definition get_weather :: "string \<Rightarrow> state \<Rightarrow> py_error + (tool_result \<times> state)" where
  "get_weather city st =
     (let preferred_unit =
            (case st ''user_preference_temperature_unit'' of
               None \<Rightarrow> PStr ''Celsius'' | Some v \<Rightarrow> v)
      in if mock_weather_db (city_normalized city) \<noteq> None then
           (case mock_weather_db (city_normalized city) of
              Some data \<Rightarrow>
                (let (temp_value, temp_unit) =
                       (if preferred_unit = PStr ''Fahrenheit''
                        then (of_int (temp_c data) * 9 / 5 + 32, degree_sign @ ''F'')
                        else (of_int (temp_c data), degree_sign @ ''C''));
                     report =
                       ''The weather in '' @ capitalize city @ '' is '' @ condition data
                         @ '' with a temperature of '' @ format_0f temp_value @ temp_unit
                         @ ''.''
                 in Inr ([(''status'', ''success''), (''report'', report)],
                         st(''last_city_checked_stateful'' \<mapsto> PStr city)))
            | None \<Rightarrow> Inl KeyError)
         else
           Inr ([(''status'', ''error''),
                 (''error_message'',
                  ''Sorry, I don't have weather information for '' @ apostrophe @ city
                    @ apostrophe @ ''.'')],
                st))"

section \<open>Messages of the agent runtime\<close>

text \<open>
  The message classes of the agent framework, with the fields the program reads. Every
  field the program tests for truth before it uses it is optional here: a part may carry
  no text (a function call or a function response is such a part), a message may have no
  role or no parts.
\<close>

record part =
  part_text :: "string option"

record content =
  role :: "string option"
  parts :: "part list option"

record llm_request =
  contents :: "content list"

record llm_response =
  response_content :: "content option"

section \<open>The guardrail before a model call\<close>

text \<open>
  The loop of \<open>block_keyword_guardrail\<close> over \<open>reversed(llm_request.contents)\<close>: it
  stops (\<open>break\<close>) at the first message that has the role \<open>user\<close>, a non-empty list of
  parts and a non-empty text in its first part, and goes on to the next message
  otherwise. Its result is the value of \<open>last_user_message_text\<close> after the loop,
  which starts as the empty string.
\<close>

fun last_user_message_text_loop :: "content list \<Rightarrow> string" where
  "last_user_message_text_loop [] = []"
| "last_user_message_text_loop (c # cs) =
     (if role c = Some ''user'' then
        (case parts c of
           Some (p # ps) \<Rightarrow>
             (case part_text p of
                Some t \<Rightarrow> if t \<noteq> [] then t else last_user_message_text_loop cs
              | None \<Rightarrow> last_user_message_text_loop cs)
         | _ \<Rightarrow> last_user_message_text_loop cs)
      else last_user_message_text_loop cs)"

definition last_user_message_text :: "llm_request \<Rightarrow> string" where
  "last_user_message_text llm_request =
     (if contents llm_request \<noteq> []
      then last_user_message_text_loop (rev (contents llm_request)) else [])"

definition keyword_to_block :: string where
  "keyword_to_block = ''BLOCK''"

text \<open>
  The hook takes the session state and the request; it returns the response that
  replaces the model call (\<open>None\<close> to let the call proceed) and the state it leaves.
  \<open>sublist\<close> is Python's \<open>in\<close> on strings.
\<close>

definition block_keyword_guardrail ::
    "state \<Rightarrow> llm_request \<Rightarrow> llm_response option \<times> state" where
  "block_keyword_guardrail st llm_request =
     (if sublist keyword_to_block (upper (last_user_message_text llm_request)) then
        (Some \<lparr>response_content = Some
            \<lparr>role = Some ''model'',
             parts = Some [\<lparr>part_text = Some
               (''I cannot process this request because it contains the blocked keyword ''
                  @ apostrophe @ keyword_to_block @ apostrophe @ ''.'')\<rparr>]\<rparr>\<rparr>,
         st(''guardrail_block_keyword_triggered'' \<mapsto> PBool True))
      else (None, st))"

section \<open>The guardrail before a tool call\<close>

definition target_tool_name :: string where
  "target_tool_name = ''get_weather''"

definition blocked_cities :: "string list" where
  "blocked_cities = [''paris'']"

text \<open>
  The hook takes the tool's name, the argument dictionary (\<open>Dict[str, Any]\<close>) and the
  session state. \<open>city_argument.lower()\<close> exists for a string only: on any other value
  that is true in a condition the attribute lookup raises \<open>AttributeError\<close>. A value
  that is false in a condition (the default \<open>""\<close>, \<open>None\<close>, \<open>0\<close>, \<open>False\<close>) ends the
  condition before \<open>lower\<close> is looked up.
\<close>

definition block_city_tool_guardrail ::
    "string \<Rightarrow> (string \<rightharpoonup> pyval) \<Rightarrow> state \<Rightarrow> py_error + (tool_result option \<times> state)" where
  "block_city_tool_guardrail tool_name args st =
     (if tool_name = target_tool_name then
        (let city_argument = (case args ''city'' of None \<Rightarrow> PStr [] | Some v \<Rightarrow> v)
         in if truthy city_argument then
              (case city_argument of
                 PStr s \<Rightarrow>
                   if lower s \<in> set blocked_cities then
                     Inr (Some
                       [(''status'', ''error''),
                        (''error_message'',
                         ''Policy restriction: Weather checks for '' @ apostrophe
                           @ capitalize s @ apostrophe
                           @ '' are currently disabled by a tool guardrail.'')],
                       st(''guardrail_tool_block_triggered'' \<mapsto> PBool True))
                   else Inr (None, st)
               | _ \<Rightarrow> Inl AttributeError)
            else Inr (None, st))
      else Inr (None, st))"

section \<open>The turn dispatcher\<close>

record event_actions =
  escalate :: "bool option"

text \<open>
  An event of the runtime. \<open>is_final_response\<close> is the flag the runtime computes for the
  event; the dispatcher only reads it.
\<close>

record event =
  is_final_response :: bool
  content :: "content option"
  actions :: "event_actions option"
  error_message :: "string option"

text \<open>The parts that make \<open>event.content and event.content.parts\<close> true; none otherwise.\<close>

definition content_parts :: "event \<Rightarrow> part list" where
  "content_parts e =
     (case content e of
        Some c \<Rightarrow> (case parts c of Some ps \<Rightarrow> ps | None \<Rightarrow> [])
      | None \<Rightarrow> [])"

text \<open>
  The loop of \<open>call_agent_async\<close> over the events the runner yields for the turn (a
  finite list: the loop ends when the runner has no more events), with the current value
  of \<open>final_response_text\<close>. The first final event ends the loop (\<open>break\<close>). The
  text of a part is optional, so the value can be Python's \<open>None\<close>.
\<close>

fun final_response_text_loop :: "event list \<Rightarrow> string option \<Rightarrow> string option" where
  "final_response_text_loop [] final_response_text = final_response_text"
| "final_response_text_loop (e # es) final_response_text =
     (if is_final_response e then
        (case content_parts e of
           p # ps \<Rightarrow> part_text p
         | [] \<Rightarrow>
             (if (case actions e of Some a \<Rightarrow> escalate a = Some True | None \<Rightarrow> False) then
                Some (''Agent escalated: '' @
                  (case error_message e of
                     Some m \<Rightarrow> if m \<noteq> [] then m else ''No specific message.''
                   | None \<Rightarrow> ''No specific message.''))
              else final_response_text))
      else final_response_text_loop es final_response_text)"

text \<open>
  \<open>call_agent_async\<close>, given the events the runner yields for the query: the value of
  \<open>final_response_text\<close> that it prints as the agent's response.
\<close>

definition call_agent_async :: "event list \<Rightarrow> string option" where
  "call_agent_async events =
     final_response_text_loop events (Some ''Agent did not produce a final response.'')"

section \<open>Notions of the specification\<close>

text \<open>
  The specification's own reading of "the most recent user message": the first message
  with the role \<open>user\<close>, scanning from the most recent message backward, and the text
  that this message holds in any of its parts.
\<close>

definition message_text :: "content \<Rightarrow> string" where
  "message_text c =
     concat (map (\<lambda>p. case part_text p of Some t \<Rightarrow> t | None \<Rightarrow> [])
       (case parts c of Some ps \<Rightarrow> ps | None \<Rightarrow> []))"

definition spec_last_user_message_text :: "llm_request \<Rightarrow> string" where
  "spec_last_user_message_text llm_request =
     (case find (\<lambda>c. role c = Some ''user'') (rev (contents llm_request)) of
        Some c \<Rightarrow> message_text c
      | None \<Rightarrow> [])"

text \<open>
  What the hook selects instead: a message counts when it has the role \<open>user\<close> and a
  non-empty text in its first part.
\<close>

definition first_part_text :: "content \<Rightarrow> string" where
  "first_part_text c =
     (case parts c of
        Some (p # ps) \<Rightarrow> (case part_text p of Some t \<Rightarrow> t | None \<Rightarrow> [])
      | _ \<Rightarrow> [])"

definition user_text_message :: "content \<Rightarrow> bool" where
  "user_text_message c = (role c = Some ''user'' \<and> first_part_text c \<noteq> [])"

text \<open>The events up to and including the first final one.\<close>

fun upto_first_final :: "event list \<Rightarrow> event list" where
  "upto_first_final [] = []"
| "upto_first_final (e # es) =
     (if is_final_response e then [e] else e # upto_first_final es)"

section \<open>Properties of the weather tool\<close>

lemma dom_mock_weather_db: "dom mock_weather_db = {''newyork'', ''london'', ''tokyo''}"
  by (auto simp: mock_weather_db_def split: if_splits)

lemma dom_mock_weather_db_basic:
  "dom mock_weather_db_basic = {''newyork'', ''london'', ''tokyo''}"
  by (auto simp: mock_weather_db_basic_def split: if_splits)

lemma mock_weather_db_cases:
  assumes "mock_weather_db k = Some d"
  shows "(k = ''newyork'' \<and> d = \<lparr>temp_c = 25, condition = ''sunny''\<rparr>)
       \<or> (k = ''london'' \<and> d = \<lparr>temp_c = 15, condition = ''cloudy''\<rparr>)
       \<or> (k = ''tokyo'' \<and> d = \<lparr>temp_c = 18, condition = ''light rain''\<rparr>)"
  using assms by (auto simp: mock_weather_db_def split: if_splits)

lemma round_half_even_of_int: "round_half_even (of_int t) = t"
  by (simp add: round_half_even_def)

lemma format_0f_of_int: "0 \<le> t \<Longrightarrow> format_0f (of_int t) = decimal (nat t)"
  by (simp add: format_0f_def round_half_even_of_int flip: of_int_abs)

lemma format_0f_fahrenheit_db:
  "format_0f (of_int 25 * 9 / 5 + 32) = decimal (nat (round (of_int 25 * 9 / 5 + 32 :: rat)))"
  "format_0f (of_int 15 * 9 / 5 + 32) = decimal (nat (round (of_int 15 * 9 / 5 + 32 :: rat)))"
  "format_0f (of_int 18 * 9 / 5 + 32) = decimal (nat (round (of_int 18 * 9 / 5 + 32 :: rat)))"
  by code_simp+

text \<open>
  Spellings of cities, among them \<open>Tokyo\<close> written with the Kelvin sign for its
  \<open>k\<close>, which Python's \<open>lower\<close> maps to the ASCII letter.
\<close>

lemma city_normalized_examples:
  "city_normalized ''New York'' = ''newyork''"
  "city_normalized ''London'' = ''london''"
  "city_normalized ''Tokyo'' = ''tokyo''"
  "city_normalized ''Paris'' = ''paris''"
  "city_normalized (''To'' @ kelvin_sign @ ''yo'') = ''tokyo''"
  by code_simp+

lemma city_in_db_examples:
  "city_normalized ''New York'' \<in> dom mock_weather_db"
  "city_normalized ''London'' \<in> dom mock_weather_db"
  "city_normalized (''To'' @ kelvin_sign @ ''yo'') \<in> dom mock_weather_db"
  "city_normalized ''Paris'' \<notin> dom mock_weather_db"
  "city_normalized ''New York'' \<in> dom mock_weather_db_basic"
  "city_normalized (''To'' @ kelvin_sign @ ''yo'') \<in> dom mock_weather_db_basic"
  "city_normalized ''Paris'' \<notin> dom mock_weather_db_basic"
  unfolding city_normalized_examples dom_mock_weather_db dom_mock_weather_db_basic
  by simp_all

lemma mock_weather_db_examples:
  "mock_weather_db (city_normalized ''New York'') = Some \<lparr>temp_c = 25, condition = ''sunny''\<rparr>"
  "mock_weather_db (city_normalized ''London'') = Some \<lparr>temp_c = 15, condition = ''cloudy''\<rparr>"
  "mock_weather_db (city_normalized ''Tokyo'') = Some \<lparr>temp_c = 18, condition = ''light rain''\<rparr>"
  "mock_weather_db (city_normalized ''Paris'') = None"
  by (simp_all add: city_normalized_examples mock_weather_db_def)

lemma get_weather_found:
  assumes "mock_weather_db (city_normalized city) = Some d"
  shows "get_weather city st =
    Inr ([(''status'', ''success''),
          (''report'',
           ''The weather in '' @ capitalize city @ '' is '' @ condition d
             @ '' with a temperature of ''
             @ format_0f
                 (if st ''user_preference_temperature_unit'' = Some (PStr ''Fahrenheit'')
                  then of_int (temp_c d) * 9 / 5 + 32 else of_int (temp_c d))
             @ degree_sign
             @ (if st ''user_preference_temperature_unit'' = Some (PStr ''Fahrenheit'')
                then ''F'' else ''C'')
             @ ''.'')],
         st(''last_city_checked_stateful'' \<mapsto> PStr city))"
  using assms by (auto simp: get_weather_def split: option.splits)

lemma get_weather_not_found:
  assumes "mock_weather_db (city_normalized city) = None"
  shows "get_weather city st =
    Inr ([(''status'', ''error''),
          (''error_message'',
           ''Sorry, I don't have weather information for '' @ apostrophe @ city
             @ apostrophe @ ''.'')],
         st)"
  using assms by (simp add: get_weather_def)

text \<open>
  C8. For every city string and every session state, the weather tool returns one of two
  shapes and never an exception. When the normalized city (lower-cased, spaces removed)
  is a key of the mock database the result is a dictionary with status \<open>success\<close> and
  a \<open>report\<close>; otherwise it is a dictionary with status \<open>error\<close> and the
  \<open>error_message\<close> \<open>Sorry, I don't have weather information for '<city>'.\<close> with the
  city as it was given. This holds for the stateful tool and for the stateless one: the
  subscript of the table is reached only with a key that the table has.
\<close>

theorem get_weather_result_shape:
  "(city_normalized city \<in> dom mock_weather_db \<longrightarrow>
      (\<exists>report st'. get_weather city st =
         Inr ([(''status'', ''success''), (''report'', report)], st')))
   \<and> (city_normalized city \<notin> dom mock_weather_db \<longrightarrow>
      (\<exists>st'. get_weather city st =
         Inr ([(''status'', ''error''),
               (''error_message'',
                ''Sorry, I don't have weather information for '' @ apostrophe @ city
                  @ apostrophe @ ''.'')], st')))
   \<and> (city_normalized city \<in> dom mock_weather_db_basic \<longrightarrow>
      (\<exists>report. get_weather_basic city =
         Inr [(''status'', ''success''), (''report'', report)]))
   \<and> (city_normalized city \<notin> dom mock_weather_db_basic \<longrightarrow>
      get_weather_basic city =
        Inr [(''status'', ''error''),
             (''error_message'',
              ''Sorry, I don't have weather information for '' @ apostrophe @ city
                @ apostrophe @ ''.'')])
   \<and> get_weather city st \<noteq> Inl e
   \<and> get_weather_basic city \<noteq> Inl e"
proof (intro conjI impI)
  assume "city_normalized city \<in> dom mock_weather_db"
  then obtain d where "mock_weather_db (city_normalized city) = Some d" by auto
  from get_weather_found [OF this]
  show "\<exists>report st'. get_weather city st =
         Inr ([(''status'', ''success''), (''report'', report)], st')"
    by blast
next
  assume "city_normalized city \<notin> dom mock_weather_db"
  then have "mock_weather_db (city_normalized city) = None" by auto
  from get_weather_not_found [OF this]
  show "\<exists>st'. get_weather city st =
         Inr ([(''status'', ''error''),
               (''error_message'',
                ''Sorry, I don't have weather information for '' @ apostrophe @ city
                  @ apostrophe @ ''.'')], st')"
    by blast
next
  assume "city_normalized city \<in> dom mock_weather_db_basic"
  then obtain r where r: "mock_weather_db_basic (city_normalized city) = Some r" by auto
  then have "\<exists>report. r = [(''status'', ''success''), (''report'', report)]"
    by (auto simp: mock_weather_db_basic_def split: if_splits)
  with r show "\<exists>report. get_weather_basic city =
         Inr [(''status'', ''success''), (''report'', report)]"
    by (auto simp: get_weather_basic_def)
next
  assume "city_normalized city \<notin> dom mock_weather_db_basic"
  then have "mock_weather_db_basic (city_normalized city) = None" by auto
  then show "get_weather_basic city =
        Inr [(''status'', ''error''),
             (''error_message'',
              ''Sorry, I don't have weather information for '' @ apostrophe @ city
                @ apostrophe @ ''.'')]"
    by (simp add: get_weather_basic_def)
next
  show "get_weather city st \<noteq> Inl e"
    using get_weather_found [of city _ st] get_weather_not_found [of city st]
    by (cases "mock_weather_db (city_normalized city)") auto
next
  show "get_weather_basic city \<noteq> Inl e"
    by (auto simp: get_weather_basic_def split: option.splits)
qed

theorem get_weather_result_shape_witness:
  "city_normalized ''New York'' \<in> dom mock_weather_db
   \<and> (\<exists>report st'. get_weather ''New York'' Map.empty =
         Inr ([(''status'', ''success''), (''report'', report)], st'))
   \<and> city_normalized (''To'' @ kelvin_sign @ ''yo'') \<in> dom mock_weather_db
   \<and> (\<exists>report st'.
         get_weather (''To'' @ kelvin_sign @ ''yo'') Map.empty =
         Inr ([(''status'', ''success''), (''report'', report)], st'))
   \<and> city_normalized ''Paris'' \<notin> dom mock_weather_db
   \<and> (\<exists>st'. get_weather ''Paris'' Map.empty =
        Inr ([(''status'', ''error''),
              (''error_message'',
               ''Sorry, I don't have weather information for '' @ apostrophe @ ''Paris''
                 @ apostrophe @ ''.'')], st'))
   \<and> city_normalized ''New York'' \<in> dom mock_weather_db_basic
   \<and> (\<exists>report. get_weather_basic ''New York'' =
         Inr [(''status'', ''success''), (''report'', report)])
   \<and> (\<exists>report. get_weather_basic (''To'' @ kelvin_sign @ ''yo'') =
         Inr [(''status'', ''success''), (''report'', report)])
   \<and> city_normalized ''Paris'' \<notin> dom mock_weather_db_basic
   \<and> get_weather_basic ''Paris'' =
        Inr [(''status'', ''error''),
             (''error_message'',
              ''Sorry, I don't have weather information for '' @ apostrophe @ ''Paris''
                @ apostrophe @ ''.'')]
   \<and> get_weather ''Paris'' Map.empty \<noteq> Inl KeyError
   \<and> get_weather_basic ''Paris'' \<noteq> Inl KeyError"
  using city_in_db_examples
        get_weather_result_shape [of "''New York''" Map.empty KeyError]
        get_weather_result_shape [of "''To'' @ kelvin_sign @ ''yo''" Map.empty KeyError]
        get_weather_result_shape [of "''Paris''" Map.empty KeyError]
  by blast

text \<open>
  C9. For every city that is not in the mock database, the stateful weather tool returns
  its error result and leaves the session state exactly as it was; the key
  \<open>last_city_checked_stateful\<close> is written on the success path only, where it
  receives the city as given and no other key changes.
\<close>

theorem get_weather_error_keeps_state:
  "(city_normalized city \<notin> dom mock_weather_db \<longrightarrow>
      (\<exists>result. get_weather city st = Inr (result, st)))
   \<and> (city_normalized city \<in> dom mock_weather_db \<longrightarrow>
      (\<exists>result. get_weather city st =
         Inr (result, st(''last_city_checked_stateful'' \<mapsto> PStr city))))"
proof (intro conjI impI)
  assume "city_normalized city \<notin> dom mock_weather_db"
  then have "mock_weather_db (city_normalized city) = None" by auto
  from get_weather_not_found [OF this]
  show "\<exists>result. get_weather city st = Inr (result, st)" by blast
next
  assume "city_normalized city \<in> dom mock_weather_db"
  then obtain d where "mock_weather_db (city_normalized city) = Some d" by auto
  from get_weather_found [OF this]
  show "\<exists>result. get_weather city st =
         Inr (result, st(''last_city_checked_stateful'' \<mapsto> PStr city))"
    by blast
qed

theorem get_weather_error_keeps_state_witness:
  "city_normalized ''Paris'' \<notin> dom mock_weather_db
   \<and> (\<exists>result. get_weather ''Paris'' [''user_preference_temperature_unit'' \<mapsto> PStr ''Celsius'']
        = Inr (result, [''user_preference_temperature_unit'' \<mapsto> PStr ''Celsius'']))
   \<and> city_normalized ''London'' \<in> dom mock_weather_db
   \<and> (\<exists>result. get_weather ''London'' [''user_preference_temperature_unit'' \<mapsto> PStr ''Celsius'']
        = Inr (result, [''user_preference_temperature_unit'' \<mapsto> PStr ''Celsius'',
                        ''last_city_checked_stateful'' \<mapsto> PStr ''London'']))
   \<and> city_normalized (''To'' @ kelvin_sign @ ''yo'') \<in> dom mock_weather_db
   \<and> (\<exists>result. get_weather (''To'' @ kelvin_sign @ ''yo'') Map.empty
        = Inr (result,
            [''last_city_checked_stateful''
               \<mapsto> PStr (''To'' @ kelvin_sign @ ''yo'')]))"
  using get_weather_error_keeps_state
          [of "''Paris''" "[''user_preference_temperature_unit'' \<mapsto> PStr ''Celsius'']"]
        get_weather_error_keeps_state
          [of "''London''" "[''user_preference_temperature_unit'' \<mapsto> PStr ''Celsius'']"]
        get_weather_error_keeps_state
          [of "''To'' @ kelvin_sign @ ''yo''" Map.empty]
        city_in_db_examples
  by blast

text \<open>
  C10. The unit preference is compared with the exact string \<open>Fahrenheit\<close>. For every
  state whose preference is anything else (another spelling such as \<open>fahrenheit\<close> or
  \<open>FAHRENHEIT\<close>, a value that is not a string, or no value at all, which defaults to
  \<open>Celsius\<close>) and every city in the mock database, the report gives the stored
  Celsius temperature with the unit \<open>\<degree>C\<close>.
\<close>

theorem get_weather_celsius_unless_exact:
  assumes "st ''user_preference_temperature_unit'' \<noteq> Some (PStr ''Fahrenheit'')"
    and "mock_weather_db (city_normalized city) = Some d"
  shows "get_weather city st =
           Inr ([(''status'', ''success''),
                 (''report'',
                  ''The weather in '' @ capitalize city @ '' is '' @ condition d
                    @ '' with a temperature of '' @ decimal (nat (temp_c d))
                    @ degree_sign @ ''C.'')],
                st(''last_city_checked_stateful'' \<mapsto> PStr city))"
proof -
  have "0 \<le> temp_c d"
    using mock_weather_db_cases [OF assms(2)] by auto
  then have "format_0f (of_int (temp_c d)) = decimal (nat (temp_c d))"
    by (rule format_0f_of_int)
  then show ?thesis
    using assms(1) get_weather_found [OF assms(2), of st] by simp
qed

theorem get_weather_celsius_unless_exact_witness:
  "[''user_preference_temperature_unit'' \<mapsto> PStr ''fahrenheit''] ''user_preference_temperature_unit''
      \<noteq> Some (PStr ''Fahrenheit'')
   \<and> mock_weather_db (city_normalized ''London'') = Some \<lparr>temp_c = 15, condition = ''cloudy''\<rparr>
   \<and> get_weather ''London'' [''user_preference_temperature_unit'' \<mapsto> PStr ''fahrenheit''] =
       Inr ([(''status'', ''success''),
             (''report'', ''The weather in London is cloudy with a temperature of 15''
                 @ degree_sign @ ''C.'')],
            [''user_preference_temperature_unit'' \<mapsto> PStr ''fahrenheit'',
             ''last_city_checked_stateful'' \<mapsto> PStr ''London''])
   \<and> get_weather ''London'' [''user_preference_temperature_unit'' \<mapsto> PStr ''FAHRENHEIT''] =
       Inr ([(''status'', ''success''),
             (''report'', ''The weather in London is cloudy with a temperature of 15''
                 @ degree_sign @ ''C.'')],
            [''user_preference_temperature_unit'' \<mapsto> PStr ''FAHRENHEIT'',
             ''last_city_checked_stateful'' \<mapsto> PStr ''London''])
   \<and> get_weather ''London'' Map.empty =
       Inr ([(''status'', ''success''),
             (''report'', ''The weather in London is cloudy with a temperature of 15''
                 @ degree_sign @ ''C.'')],
            [''last_city_checked_stateful'' \<mapsto> PStr ''London''])"
proof -
  let ?d = "\<lparr>temp_c = 15, condition = ''cloudy''\<rparr>"
  have db: "mock_weather_db (city_normalized ''London'') = Some ?d"
    by (rule mock_weather_db_examples)
  have report:
    "''The weather in '' @ capitalize ''London'' @ '' is '' @ condition ?d
       @ '' with a temperature of '' @ decimal (nat (temp_c ?d)) @ degree_sign @ ''C.''
     = ''The weather in London is cloudy with a temperature of 15'' @ degree_sign @ ''C.''"
    by code_simp
  have p1: "[''user_preference_temperature_unit'' \<mapsto> PStr ''fahrenheit'']
              ''user_preference_temperature_unit'' \<noteq> Some (PStr ''Fahrenheit'')"
    by simp
  have p2: "[''user_preference_temperature_unit'' \<mapsto> PStr ''FAHRENHEIT'']
              ''user_preference_temperature_unit'' \<noteq> Some (PStr ''Fahrenheit'')"
    by simp
  have p3: "(Map.empty :: state) ''user_preference_temperature_unit'' \<noteq> Some (PStr ''Fahrenheit'')"
    by simp
  show ?thesis
    using p1 db
      get_weather_celsius_unless_exact
        [of "[''user_preference_temperature_unit'' \<mapsto> PStr ''fahrenheit'']" "''London''" ?d,
         OF p1 db, unfolded report]
      get_weather_celsius_unless_exact
        [of "[''user_preference_temperature_unit'' \<mapsto> PStr ''FAHRENHEIT'']" "''London''" ?d,
         OF p2 db, unfolded report]
      get_weather_celsius_unless_exact
        [of Map.empty "''London''" ?d, OF p3 db, unfolded report]
    by blast
qed

text \<open>
  C3. For every city in the mock database, when the state's unit preference is
  \<open>Fahrenheit\<close> the weather tool returns status \<open>success\<close> and a report whose
  temperature is \<open>temp_c * 9/5 + 32\<close> rounded to an integer, followed by \<open>\<degree>F\<close>. For
  the city \<open>New York\<close> (25 \<degree>C) the report contains \<open>77\<degree>F\<close>; with the preference
  \<open>Celsius\<close> the report for \<open>London\<close> contains \<open>15\<degree>C\<close> and the condition
  \<open>cloudy\<close>.
\<close>

theorem get_weather_fahrenheit_report:
  "(st ''user_preference_temperature_unit'' = Some (PStr ''Fahrenheit'')
      \<and> mock_weather_db (city_normalized city) = Some d \<longrightarrow>
    get_weather city st =
      Inr ([(''status'', ''success''),
            (''report'',
             ''The weather in '' @ capitalize city @ '' is '' @ condition d
               @ '' with a temperature of ''
               @ decimal (nat (round (of_int (temp_c d) * 9 / 5 + 32 :: rat)))
               @ degree_sign @ ''F.'')],
           st(''last_city_checked_stateful'' \<mapsto> PStr city)))
   \<and> (st ''user_preference_temperature_unit'' = Some (PStr ''Fahrenheit'') \<longrightarrow>
    get_weather ''New York'' st =
      Inr ([(''status'', ''success''),
            (''report'', ''The weather in New york is sunny with a temperature of 77''
               @ degree_sign @ ''F.'')],
           st(''last_city_checked_stateful'' \<mapsto> PStr ''New York'')))
   \<and> sublist (''77'' @ degree_sign @ ''F'')
        (''The weather in New york is sunny with a temperature of 77'' @ degree_sign @ ''F.'')
   \<and> (st ''user_preference_temperature_unit'' = Some (PStr ''Celsius'') \<longrightarrow>
    get_weather ''London'' st =
      Inr ([(''status'', ''success''),
            (''report'', ''The weather in London is cloudy with a temperature of 15''
               @ degree_sign @ ''C.'')],
           st(''last_city_checked_stateful'' \<mapsto> PStr ''London'')))
   \<and> sublist (''15'' @ degree_sign @ ''C'')
        (''The weather in London is cloudy with a temperature of 15'' @ degree_sign @ ''C.'')
   \<and> sublist ''cloudy''
        (''The weather in London is cloudy with a temperature of 15'' @ degree_sign @ ''C.'')"
proof -
  have general: "get_weather c s =
      Inr ([(''status'', ''success''),
            (''report'',
             ''The weather in '' @ capitalize c @ '' is '' @ condition e
               @ '' with a temperature of ''
               @ decimal (nat (round (of_int (temp_c e) * 9 / 5 + 32 :: rat)))
               @ degree_sign @ ''F.'')],
           s(''last_city_checked_stateful'' \<mapsto> PStr c))"
    if unit: "s ''user_preference_temperature_unit'' = Some (PStr ''Fahrenheit'')"
      and db: "mock_weather_db (city_normalized c) = Some e" for c s e
  proof -
    have "format_0f (of_int (temp_c e) * 9 / 5 + 32)
            = decimal (nat (round (of_int (temp_c e) * 9 / 5 + 32 :: rat)))"
      using mock_weather_db_cases [OF db] format_0f_fahrenheit_db by auto
    then show ?thesis
      using unit get_weather_found [OF db, of s] by simp
  qed
  have ny_report:
    "''The weather in '' @ capitalize ''New York'' @ '' is ''
       @ condition \<lparr>temp_c = 25, condition = ''sunny''\<rparr> @ '' with a temperature of ''
       @ decimal (nat (round (of_int (temp_c \<lparr>temp_c = 25, condition = ''sunny''\<rparr>) * 9 / 5
           + 32 :: rat)))
       @ degree_sign @ ''F.''
     = ''The weather in New york is sunny with a temperature of 77'' @ degree_sign @ ''F.''"
    by code_simp
  have ny: "get_weather ''New York'' st =
      Inr ([(''status'', ''success''),
            (''report'', ''The weather in New york is sunny with a temperature of 77''
               @ degree_sign @ ''F.'')],
           st(''last_city_checked_stateful'' \<mapsto> PStr ''New York''))"
    if "st ''user_preference_temperature_unit'' = Some (PStr ''Fahrenheit'')"
    using general [of st "''New York''" "\<lparr>temp_c = 25, condition = ''sunny''\<rparr>",
        OF that mock_weather_db_examples(1)]
    unfolding ny_report .
  have london_report:
    "''The weather in '' @ capitalize ''London'' @ '' is ''
       @ condition \<lparr>temp_c = 15, condition = ''cloudy''\<rparr> @ '' with a temperature of ''
       @ decimal (nat (temp_c \<lparr>temp_c = 15, condition = ''cloudy''\<rparr>)) @ degree_sign @ ''C.''
     = ''The weather in London is cloudy with a temperature of 15'' @ degree_sign @ ''C.''"
    by code_simp
  have london: "get_weather ''London'' st =
      Inr ([(''status'', ''success''),
            (''report'', ''The weather in London is cloudy with a temperature of 15''
               @ degree_sign @ ''C.'')],
           st(''last_city_checked_stateful'' \<mapsto> PStr ''London''))"
    if c: "st ''user_preference_temperature_unit'' = Some (PStr ''Celsius'')"
  proof -
    have "format_0f (of_int (temp_c \<lparr>temp_c = 15, condition = ''cloudy''\<rparr>))
            = decimal (nat (temp_c \<lparr>temp_c = 15, condition = ''cloudy''\<rparr>))"
      by (rule format_0f_of_int) simp
    then have "get_weather ''London'' st =
      Inr ([(''status'', ''success''),
            (''report'', ''The weather in '' @ capitalize ''London'' @ '' is ''
               @ condition \<lparr>temp_c = 15, condition = ''cloudy''\<rparr> @ '' with a temperature of ''
               @ decimal (nat (temp_c \<lparr>temp_c = 15, condition = ''cloudy''\<rparr>))
               @ degree_sign @ ''C.'')],
           st(''last_city_checked_stateful'' \<mapsto> PStr ''London''))"
      using c get_weather_found [OF mock_weather_db_examples(2), of st] by simp
    then show ?thesis unfolding london_report .
  qed
  have s1: "sublist (''77'' @ degree_sign @ ''F'')
        (''The weather in New york is sunny with a temperature of 77'' @ degree_sign @ ''F.'')"
    by code_simp
  have s2: "sublist (''15'' @ degree_sign @ ''C'')
        (''The weather in London is cloudy with a temperature of 15'' @ degree_sign @ ''C.'')"
    by code_simp
  have s3: "sublist ''cloudy''
        (''The weather in London is cloudy with a temperature of 15'' @ degree_sign @ ''C.'')"
    by code_simp
  show ?thesis
    using general ny london s1 s2 s3 by blast
qed

theorem get_weather_fahrenheit_report_witness:
  "[''user_preference_temperature_unit'' \<mapsto> PStr ''Fahrenheit''] ''user_preference_temperature_unit''
      = Some (PStr ''Fahrenheit'')
   \<and> mock_weather_db (city_normalized ''Tokyo'') = Some \<lparr>temp_c = 18, condition = ''light rain''\<rparr>
   \<and> get_weather ''Tokyo'' [''user_preference_temperature_unit'' \<mapsto> PStr ''Fahrenheit''] =
      Inr ([(''status'', ''success''),
            (''report'', ''The weather in Tokyo is light rain with a temperature of 64''
               @ degree_sign @ ''F.'')],
           [''user_preference_temperature_unit'' \<mapsto> PStr ''Fahrenheit'',
            ''last_city_checked_stateful'' \<mapsto> PStr ''Tokyo''])
   \<and> get_weather ''New York'' [''user_preference_temperature_unit'' \<mapsto> PStr ''Fahrenheit''] =
      Inr ([(''status'', ''success''),
            (''report'', ''The weather in New york is sunny with a temperature of 77''
               @ degree_sign @ ''F.'')],
           [''user_preference_temperature_unit'' \<mapsto> PStr ''Fahrenheit'',
            ''last_city_checked_stateful'' \<mapsto> PStr ''New York''])
   \<and> [''user_preference_temperature_unit'' \<mapsto> PStr ''Celsius''] ''user_preference_temperature_unit''
      = Some (PStr ''Celsius'')
   \<and> get_weather ''London'' [''user_preference_temperature_unit'' \<mapsto> PStr ''Celsius''] =
      Inr ([(''status'', ''success''),
            (''report'', ''The weather in London is cloudy with a temperature of 15''
               @ degree_sign @ ''C.'')],
           [''user_preference_temperature_unit'' \<mapsto> PStr ''Celsius'',
            ''last_city_checked_stateful'' \<mapsto> PStr ''London''])"
proof -
  let ?f = "[''user_preference_temperature_unit'' \<mapsto> PStr ''Fahrenheit'']"
  let ?c = "[''user_preference_temperature_unit'' \<mapsto> PStr ''Celsius'']"
  let ?d = "\<lparr>temp_c = 18, condition = ''light rain''\<rparr>"
  have pf: "?f ''user_preference_temperature_unit'' = Some (PStr ''Fahrenheit'')" by simp
  have pc: "?c ''user_preference_temperature_unit'' = Some (PStr ''Celsius'')" by simp
  have db: "mock_weather_db (city_normalized ''Tokyo'') = Some ?d"
    by (rule mock_weather_db_examples)
  have tokyo_report:
    "''The weather in '' @ capitalize ''Tokyo'' @ '' is '' @ condition ?d
       @ '' with a temperature of ''
       @ decimal (nat (round (of_int (temp_c ?d) * 9 / 5 + 32 :: rat)))
       @ degree_sign @ ''F.''
     = ''The weather in Tokyo is light rain with a temperature of 64'' @ degree_sign @ ''F.''"
    by code_simp
  show ?thesis
    using pf pc db
      get_weather_fahrenheit_report [of ?f "''Tokyo''" ?d, unfolded tokyo_report]
      get_weather_fahrenheit_report [of ?c "''Tokyo''" ?d]
    by blast
qed

section \<open>Properties of the guardrail before a model call\<close>

lemma sublist_upper_iff:
  "sublist k (upper t) \<longleftrightarrow> (\<exists>pre mid post. t = pre @ mid @ post \<and> upper mid = k)"
proof
  assume "sublist k (upper t)"
  then obtain ps ss where "map upper_char t = ps @ k @ ss"
    by (auto simp: sublist_def upper_def)
  then have "\<exists>us vs. t = us @ vs \<and> ps = map upper_char us \<and> k @ ss = map upper_char vs"
    by (simp add: map_eq_append_conv)
  then obtain pre rest where t: "t = pre @ rest" and rest: "k @ ss = map upper_char rest"
    by blast
  from rest have "\<exists>us vs. rest = us @ vs \<and> k = map upper_char us \<and> ss = map upper_char vs"
    by (simp add: append_eq_map_conv)
  then obtain mid post where "rest = mid @ post" and "map upper_char mid = k"
    by blast
  with t show "\<exists>pre mid post. t = pre @ mid @ post \<and> upper mid = k"
    by (auto simp: upper_def)
next
  assume "\<exists>pre mid post. t = pre @ mid @ post \<and> upper mid = k"
  then show "sublist k (upper t)"
    by (auto simp: upper_def)
qed

lemma block_message:
  "''I cannot process this request because it contains the blocked keyword ''
      @ apostrophe @ keyword_to_block @ apostrophe @ ''.''
   = ''I cannot process this request because it contains the blocked keyword ''
      @ apostrophe @ ''BLOCK'' @ apostrophe @ ''.''"
  by (simp add: keyword_to_block_def)

lemma last_user_message_text_loop_find:
  "last_user_message_text_loop cs =
     (case find user_text_message cs of Some c \<Rightarrow> first_part_text c | None \<Rightarrow> [])"
  by (induction cs)
     (auto simp: user_text_message_def first_part_text_def split: option.splits list.splits)

lemma find_append_Cons:
  "P c \<Longrightarrow> \<forall>d\<in>set ys. \<not> P d \<Longrightarrow> find P (ys @ c # zs) = Some c"
  by (induction ys) auto

lemma find_none: "\<forall>d\<in>set ys. \<not> P d \<Longrightarrow> find P ys = None"
  by (induction ys) auto

lemma last_user_message_text_find:
  "last_user_message_text llm_request =
     (case find user_text_message (rev (contents llm_request)) of
        Some c \<Rightarrow> first_part_text c | None \<Rightarrow> [])"
  by (simp add: last_user_message_text_def last_user_message_text_loop_find)

text \<open>
  C1, as the code has it. The text the hook inspects is the text of the first part of
  the most recent message that has the role \<open>user\<close> and a non-empty text in its first
  part (the empty text when the request has no such message). For every request whose
  inspected text has a substring that is \<open>BLOCK\<close> in some letter case, at any
  position, the hook returns a response with the role \<open>model\<close> that announces the
  block, so that the model is not called, and sets the state key
  \<open>guardrail_block_keyword_triggered\<close> to \<open>True\<close>. For every request whose inspected
  text has no such substring, the hook returns \<open>None\<close> and the state is the one it was
  given, with no key written.
\<close>

theorem block_keyword_guardrail_decision:
  assumes "inspected =
     (case find user_text_message (rev (contents llm_request)) of
        Some c \<Rightarrow> first_part_text c | None \<Rightarrow> [])"
  shows "((\<exists>pre mid post. inspected = pre @ mid @ post \<and> upper mid = ''BLOCK'') \<longrightarrow>
      block_keyword_guardrail st llm_request =
        (Some \<lparr>response_content = Some
            \<lparr>role = Some ''model'',
             parts = Some [\<lparr>part_text = Some
               (''I cannot process this request because it contains the blocked keyword ''
                  @ apostrophe @ ''BLOCK'' @ apostrophe @ ''.'')\<rparr>]\<rparr>\<rparr>,
         st(''guardrail_block_keyword_triggered'' \<mapsto> PBool True)))
   \<and> (\<not> (\<exists>pre mid post. inspected = pre @ mid @ post \<and> upper mid = ''BLOCK'') \<longrightarrow>
      block_keyword_guardrail st llm_request = (None, st))"
proof -
  have hook_text: "last_user_message_text llm_request = inspected"
    using assms by (simp add: last_user_message_text_find)
  show ?thesis
  proof (cases "sublist keyword_to_block (upper inspected)")
    case True
    then have "\<exists>pre mid post. inspected = pre @ mid @ post \<and> upper mid = ''BLOCK''"
      unfolding sublist_upper_iff keyword_to_block_def .
    with True show ?thesis
      unfolding block_keyword_guardrail_def block_message hook_text by simp
  next
    case False
    then have "\<not> (\<exists>pre mid post. inspected = pre @ mid @ post \<and> upper mid = ''BLOCK'')"
      unfolding sublist_upper_iff keyword_to_block_def .
    with False show ?thesis
      unfolding block_keyword_guardrail_def hook_text by simp
  qed
qed

theorem block_keyword_guardrail_decision_witness:
  "(\<exists>pre mid post. ''please Block this'' = pre @ mid @ post \<and> upper mid = ''BLOCK'')
   \<and> block_keyword_guardrail Map.empty
        \<lparr>contents =
           [\<lparr>role = Some ''user'', parts = Some [\<lparr>part_text = Some ''please Block this''\<rparr>]\<rparr>,
            \<lparr>role = Some ''model'', parts = Some [\<lparr>part_text = None\<rparr>]\<rparr>,
            \<lparr>role = Some ''user'', parts = Some [\<lparr>part_text = None\<rparr>]\<rparr>]\<rparr> =
        (Some \<lparr>response_content = Some
            \<lparr>role = Some ''model'',
             parts = Some [\<lparr>part_text = Some
               (''I cannot process this request because it contains the blocked keyword ''
                  @ apostrophe @ ''BLOCK'' @ apostrophe @ ''.'')\<rparr>]\<rparr>\<rparr>,
         [''guardrail_block_keyword_triggered'' \<mapsto> PBool True])
   \<and> \<not> (\<exists>pre mid post. ''What is the weather in London?'' = pre @ mid @ post
          \<and> upper mid = ''BLOCK'')
   \<and> block_keyword_guardrail Map.empty
        \<lparr>contents = [\<lparr>role = Some ''user'',
                      parts = Some [\<lparr>part_text = Some ''What is the weather in London?''\<rparr>]\<rparr>]\<rparr> =
        (None, Map.empty)"
proof -
  let ?blocked = "\<lparr>contents =
           [\<lparr>role = Some ''user'', parts = Some [\<lparr>part_text = Some ''please Block this''\<rparr>]\<rparr>,
            \<lparr>role = Some ''model'', parts = Some [\<lparr>part_text = None\<rparr>]\<rparr>,
            \<lparr>role = Some ''user'', parts = Some [\<lparr>part_text = None\<rparr>]\<rparr>]\<rparr>"
  let ?allowed = "\<lparr>contents = [\<lparr>role = Some ''user'',
                      parts = Some [\<lparr>part_text = Some ''What is the weather in London?''\<rparr>]\<rparr>]\<rparr>"
  have i1: "''please Block this'' =
     (case find user_text_message (rev (contents ?blocked)) of
        Some c \<Rightarrow> first_part_text c | None \<Rightarrow> [])"
    by (simp add: user_text_message_def first_part_text_def)
  have i2: "''What is the weather in London?'' =
     (case find user_text_message (rev (contents ?allowed)) of
        Some c \<Rightarrow> first_part_text c | None \<Rightarrow> [])"
    by (simp add: user_text_message_def first_part_text_def)
  have "sublist ''BLOCK'' (upper ''please Block this'')" by code_simp
  then have yes: "\<exists>pre mid post. ''please Block this'' = pre @ mid @ post
      \<and> upper mid = ''BLOCK''"
    unfolding sublist_upper_iff .
  have "\<not> sublist ''BLOCK'' (upper ''What is the weather in London?'')" by code_simp
  then have no: "\<not> (\<exists>pre mid post. ''What is the weather in London?'' = pre @ mid @ post
      \<and> upper mid = ''BLOCK'')"
    unfolding sublist_upper_iff .
  show ?thesis
    using yes no block_keyword_guardrail_decision [OF i1, of Map.empty]
      block_keyword_guardrail_decision [OF i2, of Map.empty]
    by blast
qed

text \<open>
  C1 does not hold for the text of the most recent message with the role \<open>user\<close> as
  such. In the first request that message holds \<open>BLOCK this\<close> in its second part: the
  hook passes over it, inspects \<open>Hello\<close> and lets the model call proceed. In the second
  request that message is a function response without text: the hook inspects the
  earlier user message and blocks.
\<close>

theorem block_keyword_guardrail_counterexample:
  "spec_last_user_message_text
     \<lparr>contents =
        [\<lparr>role = Some ''user'', parts = Some [\<lparr>part_text = Some ''Hello''\<rparr>]\<rparr>,
         \<lparr>role = Some ''user'',
          parts = Some [\<lparr>part_text = None\<rparr>, \<lparr>part_text = Some ''BLOCK this''\<rparr>]\<rparr>]\<rparr>
     = ''BLOCK this''
   \<and> sublist ''BLOCK'' (upper ''BLOCK this'')
   \<and> block_keyword_guardrail Map.empty
     \<lparr>contents =
        [\<lparr>role = Some ''user'', parts = Some [\<lparr>part_text = Some ''Hello''\<rparr>]\<rparr>,
         \<lparr>role = Some ''user'',
          parts = Some [\<lparr>part_text = None\<rparr>, \<lparr>part_text = Some ''BLOCK this''\<rparr>]\<rparr>]\<rparr>
     = (None, Map.empty)
   \<and> spec_last_user_message_text
     \<lparr>contents =
        [\<lparr>role = Some ''user'', parts = Some [\<lparr>part_text = Some ''BLOCK the weather''\<rparr>]\<rparr>,
         \<lparr>role = Some ''model'', parts = Some [\<lparr>part_text = None\<rparr>]\<rparr>,
         \<lparr>role = Some ''user'', parts = Some [\<lparr>part_text = None\<rparr>]\<rparr>]\<rparr>
     = []
   \<and> \<not> sublist ''BLOCK'' (upper [])
   \<and> fst (block_keyword_guardrail Map.empty
     \<lparr>contents =
        [\<lparr>role = Some ''user'', parts = Some [\<lparr>part_text = Some ''BLOCK the weather''\<rparr>]\<rparr>,
         \<lparr>role = Some ''model'', parts = Some [\<lparr>part_text = None\<rparr>]\<rparr>,
         \<lparr>role = Some ''user'', parts = Some [\<lparr>part_text = None\<rparr>]\<rparr>]\<rparr>)
     \<noteq> None"
proof -
  let ?r1 = "\<lparr>contents =
        [\<lparr>role = Some ''user'', parts = Some [\<lparr>part_text = Some ''Hello''\<rparr>]\<rparr>,
         \<lparr>role = Some ''user'',
          parts = Some [\<lparr>part_text = None\<rparr>, \<lparr>part_text = Some ''BLOCK this''\<rparr>]\<rparr>]\<rparr>"
  let ?r2 = "\<lparr>contents =
        [\<lparr>role = Some ''user'', parts = Some [\<lparr>part_text = Some ''BLOCK the weather''\<rparr>]\<rparr>,
         \<lparr>role = Some ''model'', parts = Some [\<lparr>part_text = None\<rparr>]\<rparr>,
         \<lparr>role = Some ''user'', parts = Some [\<lparr>part_text = None\<rparr>]\<rparr>]\<rparr>"
  have s1: "spec_last_user_message_text ?r1 = ''BLOCK this''"
    and s2: "spec_last_user_message_text ?r2 = []"
    by (simp_all add: spec_last_user_message_text_def message_text_def)
  have t1: "last_user_message_text ?r1 = ''Hello''"
    and t2: "last_user_message_text ?r2 = ''BLOCK the weather''"
    by (simp_all add: last_user_message_text_def)
  have k1: "\<not> sublist keyword_to_block (upper ''Hello'')"
    and k2: "sublist keyword_to_block (upper ''BLOCK the weather'')"
    and k3: "sublist ''BLOCK'' (upper ''BLOCK this'')"
    and k4: "\<not> sublist ''BLOCK'' (upper [])"
    by code_simp+
  have b1: "block_keyword_guardrail Map.empty ?r1 = (None, Map.empty)"
    unfolding block_keyword_guardrail_def t1 using k1 by simp
  have b2: "fst (block_keyword_guardrail Map.empty ?r2) \<noteq> None"
    unfolding block_keyword_guardrail_def t2 using k2 by simp
  show ?thesis
    using s1 s2 k3 k4 b1 b2 by blast
qed

text \<open>
  C4, as the code has it. For every request history, the text the hook inspects is the
  text of the first part of the most recent message that has the role \<open>user\<close> and a
  non-empty text in its first part: the scan goes from the most recent message backward
  and passes over a user message whose first part holds no text (also when a later part
  of it does). When no message of the history is of that kind, the inspected text is
  empty.
\<close>

theorem last_user_message_text_selects:
  "last_user_message_text llm_request =
     (case find user_text_message (rev (contents llm_request)) of
        Some c \<Rightarrow> first_part_text c | None \<Rightarrow> [])
   \<and> (contents llm_request = older @ c # newer \<and> user_text_message c
        \<and> (\<forall>d\<in>set newer. \<not> user_text_message d) \<longrightarrow>
      last_user_message_text llm_request = first_part_text c)
   \<and> ((\<forall>d\<in>set (contents llm_request). \<not> user_text_message d) \<longrightarrow>
      last_user_message_text llm_request = [])"
proof (intro conjI impI)
  show find: "last_user_message_text llm_request =
     (case find user_text_message (rev (contents llm_request)) of
        Some c \<Rightarrow> first_part_text c | None \<Rightarrow> [])"
    by (simp add: last_user_message_text_def last_user_message_text_loop_find)
  show "last_user_message_text llm_request = first_part_text c"
    if "contents llm_request = older @ c # newer \<and> user_text_message c
        \<and> (\<forall>d\<in>set newer. \<not> user_text_message d)"
  proof -
    from that have "find user_text_message (rev newer @ c # rev older) = Some c"
      by (intro find_append_Cons) auto
    with that show ?thesis
      unfolding find by simp
  qed
  show "last_user_message_text llm_request = []"
    if "\<forall>d\<in>set (contents llm_request). \<not> user_text_message d"
  proof -
    from that have "find user_text_message (rev (contents llm_request)) = None"
      by (intro find_none) auto
    then show ?thesis
      unfolding find by simp
  qed
qed

theorem last_user_message_text_selects_witness:
  "last_user_message_text
     \<lparr>contents =
        [\<lparr>role = Some ''user'', parts = Some [\<lparr>part_text = Some ''Weather in Tokyo?''\<rparr>]\<rparr>,
         \<lparr>role = Some ''model'', parts = Some [\<lparr>part_text = None\<rparr>]\<rparr>,
         \<lparr>role = Some ''user'', parts = Some [\<lparr>part_text = None\<rparr>]\<rparr>]\<rparr>
     = ''Weather in Tokyo?''
   \<and> last_user_message_text
     \<lparr>contents = [\<lparr>role = Some ''model'', parts = Some [\<lparr>part_text = Some ''Hello''\<rparr>]\<rparr>]\<rparr>
     = []"
proof -
  let ?q = "\<lparr>role = Some ''user'', parts = Some [\<lparr>part_text = Some ''Weather in Tokyo?''\<rparr>]\<rparr>"
  let ?call = "\<lparr>role = Some ''model'', parts = Some [\<lparr>part_text = None\<rparr>]\<rparr>"
  let ?resp = "\<lparr>role = Some ''user'', parts = Some [\<lparr>part_text = None\<rparr>]\<rparr>"
  let ?m = "\<lparr>role = Some ''model'', parts = Some [\<lparr>part_text = Some ''Hello''\<rparr>]\<rparr>"
  have q: "user_text_message ?q" "first_part_text ?q = ''Weather in Tokyo?''"
    by (simp_all add: user_text_message_def first_part_text_def)
  have others: "\<forall>d\<in>set [?call, ?resp]. \<not> user_text_message d"
    by (simp add: user_text_message_def first_part_text_def)
  have m: "\<forall>d\<in>set (contents \<lparr>contents = [?m]\<rparr>). \<not> user_text_message d"
    by (simp add: user_text_message_def)
  show ?thesis
    using q others m
      last_user_message_text_selects
        [of "\<lparr>contents = [?q, ?call, ?resp]\<rparr>" "[]" ?q "[?call, ?resp]"]
      last_user_message_text_selects [of "\<lparr>contents = [?m]\<rparr>"]
    by simp
qed

text \<open>
  C4 does not hold for the text of the most recent message with the role \<open>user\<close>
  as such, whichever part holds it and also when it is empty. Two histories show it.
  In the first, the most recent user message is a function response without text: the
  hook inspects the text of the earlier user message. In the second, the most recent
  user message holds its text in the second part: the hook passes over it.
\<close>

theorem last_user_message_text_counterexample:
  "last_user_message_text
     \<lparr>contents =
        [\<lparr>role = Some ''user'', parts = Some [\<lparr>part_text = Some ''BLOCK the request''\<rparr>]\<rparr>,
         \<lparr>role = Some ''model'', parts = Some [\<lparr>part_text = None\<rparr>]\<rparr>,
         \<lparr>role = Some ''user'', parts = Some [\<lparr>part_text = None\<rparr>]\<rparr>]\<rparr>
     = ''BLOCK the request''
   \<and> spec_last_user_message_text
     \<lparr>contents =
        [\<lparr>role = Some ''user'', parts = Some [\<lparr>part_text = Some ''BLOCK the request''\<rparr>]\<rparr>,
         \<lparr>role = Some ''model'', parts = Some [\<lparr>part_text = None\<rparr>]\<rparr>,
         \<lparr>role = Some ''user'', parts = Some [\<lparr>part_text = None\<rparr>]\<rparr>]\<rparr>
     = []
   \<and> last_user_message_text
     \<lparr>contents =
        [\<lparr>role = Some ''user'', parts = Some [\<lparr>part_text = Some ''Hello''\<rparr>]\<rparr>,
         \<lparr>role = Some ''user'',
          parts = Some [\<lparr>part_text = None\<rparr>, \<lparr>part_text = Some ''BLOCK this''\<rparr>]\<rparr>]\<rparr>
     = ''Hello''
   \<and> spec_last_user_message_text
     \<lparr>contents =
        [\<lparr>role = Some ''user'', parts = Some [\<lparr>part_text = Some ''Hello''\<rparr>]\<rparr>,
         \<lparr>role = Some ''user'',
          parts = Some [\<lparr>part_text = None\<rparr>, \<lparr>part_text = Some ''BLOCK this''\<rparr>]\<rparr>]\<rparr>
     = ''BLOCK this''"
  by (simp add: last_user_message_text_def spec_last_user_message_text_def message_text_def)

section \<open>Properties of the turn dispatcher\<close>

lemma loop_no_final:
  "\<forall>e\<in>set events. \<not> is_final_response e \<Longrightarrow> final_response_text_loop events t = t"
  by (induction events) auto

lemma loop_skip_prefix:
  "\<forall>e\<in>set earlier. \<not> is_final_response e \<Longrightarrow>
     final_response_text_loop (earlier @ rest) t = final_response_text_loop rest t"
  by (induction earlier) auto

lemma loop_upto_first_final:
  "final_response_text_loop (upto_first_final events) t = final_response_text_loop events t"
  by (induction events) auto

lemma upto_first_final_append:
  "\<forall>x\<in>set earlier. \<not> is_final_response x \<Longrightarrow> is_final_response e \<Longrightarrow>
     upto_first_final (earlier @ e # later) = earlier @ [e]"
  by (induction earlier) auto

text \<open>
  C5, as the code has it. For every event sequence in which no event is flagged final,
  the response text of the dispatcher is its default, the fixed sentence
  \<open>Agent did not produce a final response.\<close>, the same for every such sequence.
\<close>

theorem call_agent_async_no_final:
  "(\<forall>e\<in>set events. \<not> is_final_response e) \<longrightarrow>
     call_agent_async events = Some ''Agent did not produce a final response.''"
  by (simp add: call_agent_async_def loop_no_final)

theorem call_agent_async_no_final_witness:
  "\<not> is_final_response
        \<lparr>is_final_response = False,
          content = Some \<lparr>role = Some ''model'', parts = Some [\<lparr>part_text = Some ''thinking''\<rparr>]\<rparr>,
          actions = None, error_message = None\<rparr>
   \<and> call_agent_async
        [\<lparr>is_final_response = False,
          content = Some \<lparr>role = Some ''model'', parts = Some [\<lparr>part_text = Some ''thinking''\<rparr>]\<rparr>,
          actions = None, error_message = None\<rparr>]
      = Some ''Agent did not produce a final response.''
   \<and> call_agent_async [] = Some ''Agent did not produce a final response.''"
  using call_agent_async_no_final
          [of "[\<lparr>is_final_response = False,
               content = Some \<lparr>role = Some ''model'', parts = Some [\<lparr>part_text = Some ''thinking''\<rparr>]\<rparr>,
               actions = None, error_message = None\<rparr>]"]
        call_agent_async_no_final [of "[]"]
  by simp

text \<open>
  C5 does not hold with \<open>no final response produced\<close> as the wording of the
  fallback sentence: that is not the text the dispatcher shows.
\<close>

theorem call_agent_async_no_final_counterexample:
  "\<not> is_final_response
        \<lparr>is_final_response = False,
          content = Some \<lparr>role = Some ''model'', parts = Some [\<lparr>part_text = Some ''thinking''\<rparr>]\<rparr>,
          actions = None, error_message = None\<rparr>
   \<and> call_agent_async
        [\<lparr>is_final_response = False,
          content = Some \<lparr>role = Some ''model'', parts = Some [\<lparr>part_text = Some ''thinking''\<rparr>]\<rparr>,
          actions = None, error_message = None\<rparr>]
      \<noteq> Some ''no final response produced''"
  by (simp add: call_agent_async_def)

text \<open>
  C6, as the code has it. For every event sequence whose first final event has no
  content parts (no content, or a content whose list of parts is missing or empty) and
  carries an escalation signal, the response is \<open>Agent escalated: \<close> followed by the
  event's error text, and by \<open>No specific message.\<close> when the error text is absent or
  empty; so an event without error text gives the fixed sentence
  \<open>Agent escalated: No specific message.\<close>. The events after it do not matter.
\<close>

theorem call_agent_async_escalation:
  assumes "\<forall>x\<in>set earlier. \<not> is_final_response x"
    and "is_final_response e"
    and "content_parts e = []"
    and "actions e = Some a"
    and "escalate a = Some True"
  shows "call_agent_async (earlier @ e # later) =
           Some (''Agent escalated: '' @
             (case error_message e of
                Some m \<Rightarrow> if m = [] then ''No specific message.'' else m
              | None \<Rightarrow> ''No specific message.''))
         \<and> (error_message e = None \<longrightarrow>
              call_agent_async (earlier @ e # later)
                = Some ''Agent escalated: No specific message.'')"
  using assms
  by (auto simp: call_agent_async_def loop_skip_prefix split: option.splits)

theorem call_agent_async_escalation_witness:
  "\<not> is_final_response
        \<lparr>is_final_response = False, content = None, actions = None, error_message = None\<rparr>
   \<and> call_agent_async
        [\<lparr>is_final_response = False, content = None, actions = None, error_message = None\<rparr>,
         \<lparr>is_final_response = True, content = None,
          actions = Some \<lparr>escalate = Some True\<rparr>, error_message = Some ''Quota exceeded''\<rparr>,
         \<lparr>is_final_response = True,
          content = Some \<lparr>role = Some ''model'', parts = Some [\<lparr>part_text = Some ''late''\<rparr>]\<rparr>,
          actions = None, error_message = None\<rparr>]
      = Some ''Agent escalated: Quota exceeded''
   \<and> call_agent_async
        [\<lparr>is_final_response = True, content = Some \<lparr>role = Some ''model'', parts = Some []\<rparr>,
          actions = Some \<lparr>escalate = Some True\<rparr>, error_message = None\<rparr>]
      = Some ''Agent escalated: No specific message.''"
proof -
  let ?i = "\<lparr>is_final_response = False, content = None, actions = None, error_message = None\<rparr>"
  let ?e = "\<lparr>is_final_response = True, content = None,
          actions = Some \<lparr>escalate = Some True\<rparr>, error_message = Some ''Quota exceeded''\<rparr>"
  let ?l = "\<lparr>is_final_response = True,
          content = Some \<lparr>role = Some ''model'', parts = Some [\<lparr>part_text = Some ''late''\<rparr>]\<rparr>,
          actions = None, error_message = None\<rparr>"
  let ?n = "\<lparr>is_final_response = True, content = Some \<lparr>role = Some ''model'', parts = Some []\<rparr>,
          actions = Some \<lparr>escalate = Some True\<rparr>, error_message = None\<rparr>"
  have h1: "\<forall>x\<in>set [?i]. \<not> is_final_response x" by simp
  have h0: "\<forall>x\<in>set ([] :: event list). \<not> is_final_response x" by simp
  have e: "is_final_response ?e" "content_parts ?e = []"
    "actions ?e = Some \<lparr>escalate = Some True\<rparr>" "escalate \<lparr>escalate = Some True\<rparr> = Some True"
    by (simp_all add: content_parts_def)
  have n: "is_final_response ?n" "content_parts ?n = []"
    "actions ?n = Some \<lparr>escalate = Some True\<rparr>" "error_message ?n = None"
    by (simp_all add: content_parts_def)
  show ?thesis
    using call_agent_async_escalation [OF h1 e, of "[?l]"]
      call_agent_async_escalation [OF h0 n(1,2,3) e(4), of "[]"] n(4)
    by simp
qed

text \<open>
  C6 does not hold for every final event with no text content. A final event whose
  content has a part without text (a function response, for one) has no
  text content, yet the dispatcher takes the first branch: the response is the text of
  that part, Python's \<open>None\<close>, and the escalation signal is not looked at.
\<close>

theorem call_agent_async_escalation_counterexample:
  "is_final_response
        \<lparr>is_final_response = True,
          content = Some \<lparr>role = Some ''model'', parts = Some [\<lparr>part_text = None\<rparr>]\<rparr>,
          actions = Some \<lparr>escalate = Some True\<rparr>, error_message = Some ''Tool failed''\<rparr>
   \<and> message_text \<lparr>role = Some ''model'', parts = Some [\<lparr>part_text = None\<rparr>]\<rparr> = []
   \<and> call_agent_async
        [\<lparr>is_final_response = True,
          content = Some \<lparr>role = Some ''model'', parts = Some [\<lparr>part_text = None\<rparr>]\<rparr>,
          actions = Some \<lparr>escalate = Some True\<rparr>, error_message = Some ''Tool failed''\<rparr>]
      = None
   \<and> call_agent_async
        [\<lparr>is_final_response = True,
          content = Some \<lparr>role = Some ''model'', parts = Some [\<lparr>part_text = None\<rparr>]\<rparr>,
          actions = Some \<lparr>escalate = Some True\<rparr>, error_message = Some ''Tool failed''\<rparr>]
      \<noteq> Some ''Agent escalated: Tool failed''"
  by (simp add: call_agent_async_def content_parts_def message_text_def)

text \<open>
  C7. For every event sequence, the response of the dispatcher is the response to the
  events up to and including the first one flagged final: two sequences with the same
  such prefix get the same response, and the events after the first final event can be
  dropped or replaced by any others without changing it.
\<close>

theorem call_agent_async_prefix:
  "call_agent_async events = call_agent_async (upto_first_final events)
   \<and> (upto_first_final events = upto_first_final events' \<longrightarrow>
        call_agent_async events = call_agent_async events')
   \<and> ((\<forall>x\<in>set earlier. \<not> is_final_response x) \<and> is_final_response e \<longrightarrow>
        upto_first_final (earlier @ e # later) = earlier @ [e]
        \<and> call_agent_async (earlier @ e # later) = call_agent_async (earlier @ [e])
        \<and> call_agent_async (earlier @ e # later) = call_agent_async (earlier @ e # later'))"
proof (intro conjI impI)
  show a: "call_agent_async events = call_agent_async (upto_first_final events)" for events
    by (simp add: call_agent_async_def loop_upto_first_final)
  show "call_agent_async events = call_agent_async events'"
    if "upto_first_final events = upto_first_final events'"
    using a [of events] a [of events'] that by simp
  assume h: "(\<forall>x\<in>set earlier. \<not> is_final_response x) \<and> is_final_response e"
  then show "upto_first_final (earlier @ e # later) = earlier @ [e]"
    by (simp add: upto_first_final_append)
  from h show "call_agent_async (earlier @ e # later) = call_agent_async (earlier @ [e])"
    by (simp add: call_agent_async_def loop_skip_prefix)
  from h show "call_agent_async (earlier @ e # later) = call_agent_async (earlier @ e # later')"
    by (simp add: call_agent_async_def loop_skip_prefix)
qed


theorem call_agent_async_prefix_witness:
  "\<not> is_final_response
        \<lparr>is_final_response = False, content = None, actions = None, error_message = None\<rparr>
   \<and> is_final_response
        \<lparr>is_final_response = True,
          content = Some \<lparr>role = Some ''model'', parts = Some [\<lparr>part_text = Some ''It is sunny.''\<rparr>]\<rparr>,
          actions = None, error_message = None\<rparr>
   \<and> upto_first_final
        [\<lparr>is_final_response = False, content = None, actions = None, error_message = None\<rparr>,
         \<lparr>is_final_response = True,
          content = Some \<lparr>role = Some ''model'', parts = Some [\<lparr>part_text = Some ''It is sunny.''\<rparr>]\<rparr>,
          actions = None, error_message = None\<rparr>,
         \<lparr>is_final_response = True,
          content = Some \<lparr>role = Some ''model'', parts = Some [\<lparr>part_text = Some ''late''\<rparr>]\<rparr>,
          actions = None, error_message = None\<rparr>]
      = [\<lparr>is_final_response = False, content = None, actions = None, error_message = None\<rparr>,
         \<lparr>is_final_response = True,
          content = Some \<lparr>role = Some ''model'', parts = Some [\<lparr>part_text = Some ''It is sunny.''\<rparr>]\<rparr>,
          actions = None, error_message = None\<rparr>]
   \<and> call_agent_async
        [\<lparr>is_final_response = False, content = None, actions = None, error_message = None\<rparr>,
         \<lparr>is_final_response = True,
          content = Some \<lparr>role = Some ''model'', parts = Some [\<lparr>part_text = Some ''It is sunny.''\<rparr>]\<rparr>,
          actions = None, error_message = None\<rparr>,
         \<lparr>is_final_response = True,
          content = Some \<lparr>role = Some ''model'', parts = Some [\<lparr>part_text = Some ''late''\<rparr>]\<rparr>,
          actions = None, error_message = None\<rparr>]
      = call_agent_async
        [\<lparr>is_final_response = False, content = None, actions = None, error_message = None\<rparr>,
         \<lparr>is_final_response = True,
          content = Some \<lparr>role = Some ''model'', parts = Some [\<lparr>part_text = Some ''It is sunny.''\<rparr>]\<rparr>,
          actions = None, error_message = None\<rparr>]
   \<and> call_agent_async
        [\<lparr>is_final_response = False, content = None, actions = None, error_message = None\<rparr>,
         \<lparr>is_final_response = True,
          content = Some \<lparr>role = Some ''model'', parts = Some [\<lparr>part_text = Some ''It is sunny.''\<rparr>]\<rparr>,
          actions = None, error_message = None\<rparr>]
      = Some ''It is sunny.''"
proof -
  let ?i = "\<lparr>is_final_response = False, content = None, actions = None, error_message = None\<rparr>"
  let ?e = "\<lparr>is_final_response = True,
          content = Some \<lparr>role = Some ''model'', parts = Some [\<lparr>part_text = Some ''It is sunny.''\<rparr>]\<rparr>,
          actions = None, error_message = None\<rparr>"
  let ?l = "\<lparr>is_final_response = True,
          content = Some \<lparr>role = Some ''model'', parts = Some [\<lparr>part_text = Some ''late''\<rparr>]\<rparr>,
          actions = None, error_message = None\<rparr>"
  have h: "(\<forall>x\<in>set [?i]. \<not> is_final_response x) \<and> is_final_response ?e" by simp
  have v: "call_agent_async [?i, ?e] = Some ''It is sunny.''"
    by (simp add: call_agent_async_def content_parts_def)
  show ?thesis
    using h v call_agent_async_prefix [of "[?i, ?e, ?l]" "[?i, ?e]" "[?i]" ?e "[?l]" "[]"]
    by simp
qed

section \<open>Properties of the guardrail before a tool call\<close>

lemma upper_lower_char: "upper_char (lower_char c) = upper_char c"
  by (auto simp: upper_char_def lower_char_def Let_def)

lemma lower_Cons_inv:
  assumes "lower s = x # xs" and "x \<noteq> CHR ''k''" and "x \<noteq> CHR ''i''"
  shows "\<exists>a s'. s = a # s' \<and> lower_char a = x \<and> lower s' = xs"
  using assms by (cases s rule: lower.cases) (auto split: if_splits)

lemma capitalize_paris: "lower s = ''paris'' \<Longrightarrow> capitalize s = ''Paris''"
proof -
  assume "lower s = ''paris''"
  then obtain a s' where s: "s = a # s'" and a: "lower_char a = CHR ''p''"
      and rest: "lower s' = ''aris''"
    using lower_Cons_inv [of s "CHR ''p''" "''aris''"] by auto
  have "upper_char a = upper_char (CHR ''p'')"
    using upper_lower_char [of a] a by simp
  also have "\<dots> = CHR ''P''" by code_simp
  finally show ?thesis using s rest by simp
qed

text \<open>
  The hook on the inputs it is written for. Where the tool name is \<open>get_weather\<close> and
  the \<open>city\<close> argument is a non-empty string equal to \<open>paris\<close> up to letter case, the
  hook returns a dictionary with status \<open>error\<close> and the error message
  \<open>Policy restriction: Weather checks for 'Paris' are currently disabled by a tool guardrail.\<close>,
  so that the tool body does not run, and sets the state key
  \<open>guardrail_tool_block_triggered\<close> to \<open>True\<close>. For every other tool name, and for
  a \<open>city\<close> argument that is absent, that is false in a condition (the empty string,
  \<open>None\<close>, \<open>0\<close>, \<open>False\<close>) or that is a string other than \<open>paris\<close> up to letter
  case, it returns \<open>None\<close>, so that the tool runs, and leaves the state as it was.
\<close>

lemma block_city_tool_guardrail_decision:
  "(tool_name = ''get_weather'' \<and> args ''city'' = Some (PStr s) \<and> s \<noteq> []
      \<and> lower s = ''paris'' \<longrightarrow>
    block_city_tool_guardrail tool_name args st =
      Inr (Some [(''status'', ''error''),
                 (''error_message'',
                  ''Policy restriction: Weather checks for '' @ apostrophe @ ''Paris''
                    @ apostrophe @ '' are currently disabled by a tool guardrail.'')],
           st(''guardrail_tool_block_triggered'' \<mapsto> PBool True)))
   \<and> sublist ''Policy restriction''
        (''Policy restriction: Weather checks for '' @ apostrophe @ ''Paris''
           @ apostrophe @ '' are currently disabled by a tool guardrail.'')
   \<and> (tool_name \<noteq> ''get_weather'' \<longrightarrow>
        block_city_tool_guardrail tool_name args st = Inr (None, st))
   \<and> (args ''city'' = None \<longrightarrow>
        block_city_tool_guardrail tool_name args st = Inr (None, st))
   \<and> (args ''city'' = Some v \<and> \<not> truthy v \<longrightarrow>
        block_city_tool_guardrail tool_name args st = Inr (None, st))
   \<and> (args ''city'' = Some (PStr s) \<and> lower s \<noteq> ''paris'' \<longrightarrow>
        block_city_tool_guardrail tool_name args st = Inr (None, st))"
proof (intro conjI impI)
  assume h: "tool_name = ''get_weather'' \<and> args ''city'' = Some (PStr s) \<and> s \<noteq> []
      \<and> lower s = ''paris''"
  then have "capitalize s = ''Paris''" by (simp add: capitalize_paris)
  with h show "block_city_tool_guardrail tool_name args st =
      Inr (Some [(''status'', ''error''),
                 (''error_message'',
                  ''Policy restriction: Weather checks for '' @ apostrophe @ ''Paris''
                    @ apostrophe @ '' are currently disabled by a tool guardrail.'')],
           st(''guardrail_tool_block_triggered'' \<mapsto> PBool True))"
    by (simp add: block_city_tool_guardrail_def target_tool_name_def blocked_cities_def)
next
  show "sublist ''Policy restriction''
        (''Policy restriction: Weather checks for '' @ apostrophe @ ''Paris''
           @ apostrophe @ '' are currently disabled by a tool guardrail.'')"
    by simp
next
  assume "tool_name \<noteq> ''get_weather''"
  then show "block_city_tool_guardrail tool_name args st = Inr (None, st)"
    by (simp add: block_city_tool_guardrail_def target_tool_name_def)
next
  assume "args ''city'' = None"
  then show "block_city_tool_guardrail tool_name args st = Inr (None, st)"
    by (simp add: block_city_tool_guardrail_def)
next
  assume "args ''city'' = Some v \<and> \<not> truthy v"
  then show "block_city_tool_guardrail tool_name args st = Inr (None, st)"
    by (simp add: block_city_tool_guardrail_def)
next
  assume "args ''city'' = Some (PStr s) \<and> lower s \<noteq> ''paris''"
  then show "block_city_tool_guardrail tool_name args st = Inr (None, st)"
    by (simp add: block_city_tool_guardrail_def blocked_cities_def)
qed

lemma block_city_tool_guardrail_decision_examples:
  "lower ''PaRiS'' = ''paris''
   \<and> block_city_tool_guardrail ''get_weather'' [''city'' \<mapsto> PStr ''PaRiS'']
        [''user_preference_temperature_unit'' \<mapsto> PStr ''Fahrenheit''] =
      Inr (Some [(''status'', ''error''),
                 (''error_message'',
                  ''Policy restriction: Weather checks for '' @ apostrophe @ ''Paris''
                    @ apostrophe @ '' are currently disabled by a tool guardrail.'')],
           [''user_preference_temperature_unit'' \<mapsto> PStr ''Fahrenheit'',
            ''guardrail_tool_block_triggered'' \<mapsto> PBool True])
   \<and> block_city_tool_guardrail ''say_hello'' [''name'' \<mapsto> PStr ''Paris''] Map.empty
        = Inr (None, Map.empty)
   \<and> block_city_tool_guardrail ''get_weather'' Map.empty Map.empty = Inr (None, Map.empty)
   \<and> \<not> truthy PNone
   \<and> block_city_tool_guardrail ''get_weather'' [''city'' \<mapsto> PNone] Map.empty
        = Inr (None, Map.empty)
   \<and> lower ''London'' \<noteq> ''paris''
   \<and> block_city_tool_guardrail ''get_weather'' [''city'' \<mapsto> PStr ''London''] Map.empty
        = Inr (None, Map.empty)"
proof -
  have l: "lower ''PaRiS'' = ''paris''" "lower ''London'' \<noteq> ''paris''"
    by code_simp+
  show ?thesis
    using l
      block_city_tool_guardrail_decision
        [of "''get_weather''" "[''city'' \<mapsto> PStr ''PaRiS'']" "''PaRiS''"
            "[''user_preference_temperature_unit'' \<mapsto> PStr ''Fahrenheit'']"]
      block_city_tool_guardrail_decision
        [of "''say_hello''" "[''name'' \<mapsto> PStr ''Paris'']" _ Map.empty]
      block_city_tool_guardrail_decision [of "''get_weather''" Map.empty _ Map.empty]
      block_city_tool_guardrail_decision
        [of "''get_weather''" "[''city'' \<mapsto> PNone]" _ Map.empty PNone]
      block_city_tool_guardrail_decision
        [of "''get_weather''" "[''city'' \<mapsto> PStr ''London'']" "''London''" Map.empty]
    by simp
qed

text \<open>
  C2. The hook is to return \<open>None\<close>, so that the tool runs, for every tool name and
  every \<open>city\<close> value other than a spelling of the blocked city; its documentation
  says the same (it "allows the tool call to proceed by returning None"). It does not
  for a \<open>city\<close> value that is true in a condition and is not a string: the argument
  dictionary is a \<open>Dict[str, Any]\<close>, and for the integer \<open>5\<close> or the value \<open>True\<close>
  the lookup of \<open>lower\<close> raises \<open>AttributeError\<close>, whatever the state, while the
  values \<open>None\<close>, \<open>0\<close> and \<open>False\<close> pass as the documentation says.
\<close>

theorem block_city_tool_guardrail_non_string_city:
  "block_city_tool_guardrail ''get_weather'' [''city'' \<mapsto> PInt 5] st = Inl AttributeError
   \<and> block_city_tool_guardrail ''get_weather'' [''city'' \<mapsto> PBool True] st
        = Inl AttributeError
   \<and> block_city_tool_guardrail ''get_weather'' [''city'' \<mapsto> PInt 5] st \<noteq> Inr (None, st)
   \<and> block_city_tool_guardrail ''get_weather'' [''city'' \<mapsto> PInt 0] st = Inr (None, st)
   \<and> block_city_tool_guardrail ''get_weather'' [''city'' \<mapsto> PNone] st = Inr (None, st)"
  by (simp add: block_city_tool_guardrail_def target_tool_name_def)

end
